theory Spec2Isabelle
  imports Complex_Main
begin

section \<open>The research service of coworker (src/services/research.ts)\<close>

text \<open>
  A shallow embedding of \<^verbatim>\<open>ResearchService\<close>. Conventions of the model:
  \<^item> a JavaScript string is a \<^typ>\<open>string\<close>; \<^verbatim>\<open>toLowerCase\<close> acts on the letters A-Z, and
    white space is the ASCII white space;
  \<^item> a JavaScript number that carries a score is a \<^typ>\<open>real\<close>: the arithmetic of the scores
    is the exact one, not the rounded arithmetic of doubles;
  \<^item> a value that the code tests for presence before use (\<^verbatim>\<open>repo.description\<close>,
    \<^verbatim>\<open>query.purpose\<close>, an anchor's \<^verbatim>\<open>href\<close>) is a \<open>jsval\<close>: undefined, null or a
    string;
  \<^item> a thrown exception is the \<open>Inl\<close> of a sum; every \<^verbatim>\<open>try/catch\<close> is a case split;
  \<^item> the network (axios), the HTML parser (cheerio) and the URL resolver are inputs: an
    \<open>env\<close> record says what every request returns or throws; the logger is left out;
  \<^item> names are the source's, but: a parameter \<^verbatim>\<open>technology\<close> is \<open>tech\<close> and a parameter
    \<^verbatim>\<open>code\<close> is \<open>src\<close> (both are field names here), the \<^verbatim>\<open>description\<close> of a code example
    is \<open>example_description\<close>, the fields of a code-search item and of an anchor carry
    the prefixes \<open>item_\<close> and \<open>anchor_\<close>, and \<open>includes_str\<close>, \<open>split_str\<close>, \<open>join_str\<close>
    are \<^verbatim>\<open>includes\<close>, \<^verbatim>\<open>split\<close>, \<^verbatim>\<open>join\<close>.
\<close>

subsection \<open>JavaScript values and errors\<close>

datatype js_error = TypeError string | Error string

datatype jsval = Undefined | Null | Str string

text \<open>Truthiness, as \<^verbatim>\<open>&&\<close> and \<^verbatim>\<open>?:\<close> test it: the empty string is falsy.\<close>

fun truthy :: "jsval \<Rightarrow> bool" where
  "truthy Undefined = False"
| "truthy Null = False"
| "truthy (Str s) = (s \<noteq> [])"

subsection \<open>String primitives\<close>

definition toLowerChar :: "char \<Rightarrow> char" where
  "toLowerChar c =
     (case map_of (zip ''ABCDEFGHIJKLMNOPQRSTUVWXYZ'' ''abcdefghijklmnopqrstuvwxyz'') c of
        None \<Rightarrow> c
      | Some l \<Rightarrow> l)"

definition toLowerCase :: "string \<Rightarrow> string" where
  "toLowerCase s = map toLowerChar s"

text \<open>\<^verbatim>\<open>v.toLowerCase()\<close> on a value that may be missing: a TypeError on undefined and null.\<close>

fun toLowerCase_method :: "jsval \<Rightarrow> js_error + string" where
  "toLowerCase_method (Str s) = Inr (toLowerCase s)"
| "toLowerCase_method Undefined = Inl (TypeError ''Cannot read properties of undefined'')"
| "toLowerCase_method Null = Inl (TypeError ''Cannot read properties of null'')"

fun startsWith :: "string \<Rightarrow> string \<Rightarrow> bool" where
  "startsWith s [] = True"
| "startsWith [] (p # ps) = False"
| "startsWith (c # cs) (p # ps) = (c = p \<and> startsWith cs ps)"

text \<open>\<^verbatim>\<open>s.includes(t)\<close>: \<open>t\<close> occurs in \<open>s\<close> as a contiguous substring.\<close>

fun includes_str :: "string \<Rightarrow> string \<Rightarrow> bool" where
  "includes_str [] t = (t = [])"
| "includes_str (c # cs) t = (startsWith (c # cs) t \<or> includes_str cs t)"

text \<open>\<^verbatim>\<open>s.split(c)\<close> for a separator of one character: never empty, empty pieces kept.\<close>

fun split_str :: "char \<Rightarrow> string \<Rightarrow> string list" where
  "split_str sep [] = [[]]"
| "split_str sep (c # cs) =
     (if c = sep then [] # split_str sep cs
      else (case split_str sep cs of
              [] \<Rightarrow> [[c]]
            | w # ws \<Rightarrow> (c # w) # ws))"

fun join_str :: "string \<Rightarrow> string list \<Rightarrow> string" where
  "join_str sep [] = []"
| "join_str sep [x] = x"
| "join_str sep (x # y # ys) = x @ sep @ join_str sep (y # ys)"

text \<open>\<^verbatim>\<open>xs.slice(start, end)\<close> for \<open>0 \<le> start\<close> and \<open>0 \<le> end\<close>.\<close>

definition slice :: "'a list \<Rightarrow> nat \<Rightarrow> nat \<Rightarrow> 'a list" where
  "slice xs start end' = drop start (take end' xs)"

definition isSpace :: "char \<Rightarrow> bool" where
  "isSpace c = (c \<in> set [CHR '' '', CHR 0x09, CHR 0x0A, CHR 0x0B, CHR 0x0C, CHR 0x0D])"

definition trim :: "string \<Rightarrow> string" where
  "trim s = rev (dropWhile isSpace (rev (dropWhile isSpace s)))"

subsection \<open>Data model (src/types/index.ts)\<close>

datatype resource_type = Documentation | Tutorial | Repository | Article

record resource =
  title :: string
  url :: string
  type :: resource_type
  relevance :: real

record code_example =
  language :: string
  code :: string
  example_description :: string
  source :: string

text \<open>
  \<^verbatim>\<open>ResearchQuery\<close>. The interface declares \<^verbatim>\<open>purpose\<close> a string; the socket handler of
  core/app.ts hands the client's payload over unvalidated, and \<^verbatim>\<open>generateSummary\<close> itself
  tests \<^verbatim>\<open>query.purpose\<close> for presence, so the field is a \<open>jsval\<close>. \<^verbatim>\<open>constraints\<close> is
  optional.
\<close>

record research_query =
  technology :: string
  purpose :: jsval
  constraints :: "string list option"

record research_result =
  summary :: string
  recommendations :: "string list"
  codeExamples :: "code_example list"
  resources :: "resource list"

text \<open>
  An item of the repository search (\<^verbatim>\<open>repo: any\<close>), with the fields the code reads.
  GitHub sends \<^verbatim>\<open>description\<close> as null for a repository without one;
  \<^verbatim>\<open>stargazers_count\<close> is a count.
\<close>

record repo =
  full_name :: string
  html_url :: string
  name :: string
  description :: jsval
  stargazers_count :: nat

subsection \<open>Relevance scores\<close>

text \<open>
  \<^verbatim>\<open>calculateRelevance\<close>. The description test is
  \<^verbatim>\<open>repo.description && repo.description.toLowerCase().includes(...)\<close>: the method call is
  reached only for a truthy description.
\<close>

definition descriptionMatches :: "jsval \<Rightarrow> string \<Rightarrow> js_error + bool" where
  "descriptionMatches d tech =
     (if truthy d then
        (case toLowerCase_method d of
           Inl e \<Rightarrow> Inl e
         | Inr l \<Rightarrow> Inr (includes_str l (toLowerCase tech)))
      else Inr False)"

definition calculateRelevance :: "repo \<Rightarrow> string \<Rightarrow> js_error + real" where
  "calculateRelevance r tech =
     (let relevance0 = (0 :: real);
          relevance1 = (if includes_str (toLowerCase (name r)) (toLowerCase tech)
                        then relevance0 + 0.4 else relevance0)
      in case descriptionMatches (description r) tech of
           Inl e \<Rightarrow> Inl e
         | Inr m \<Rightarrow>
             (let relevance2 = (if m then relevance1 + 0.3 else relevance1);
                  relevance3 = relevance2 + min (real (stargazers_count r) / 10000) 0.3
              in Inr (min relevance3 1.0)))"

definition calculateTextRelevance :: "string \<Rightarrow> string \<Rightarrow> real" where
  "calculateTextRelevance text tech =
     (let lowerText = toLowerCase text;
          lowerTech = toLowerCase tech
      in if includes_str lowerText lowerTech then 0.8
         else (let words = split_str CHR '' '' lowerTech;
                   matchedWords = filter (\<lambda>word. includes_str lowerText word) words
               in real (length matchedWords) / real (length words) * 0.6))"

subsection \<open>The documentation adapter's final stage\<close>

text \<open>
  \<^verbatim>\<open>results.filter(r => r.relevance > 0.3).sort((a, b) => b.relevance - a.relevance).slice(0, 10)\<close>.
  \<^verbatim>\<open>Array.prototype.sort\<close> is stable; so is \<^const>\<open>sort_key\<close>, here on the negated score.
\<close>

definition rankDocumentation :: "resource list \<Rightarrow> resource list" where
  "rankDocumentation results =
     slice (sort_key (\<lambda>r. - relevance r) (filter (\<lambda>r. relevance r > 0.3) results)) 0 10"

subsection \<open>Code samples\<close>

definition newline :: string where
  "newline = [CHR 0x0A]"

text \<open>
  The \<^verbatim>\<open>for\<close> loop of \<^verbatim>\<open>extractRelevantCode\<close> from index \<open>i\<close> on: the value of
  \<^verbatim>\<open>relevantLines\<close> when the loop ends. The \<^verbatim>\<open>break\<close> is the branch without a recursive
  call.
\<close>

function scanLines :: "string list \<Rightarrow> string \<Rightarrow> nat \<Rightarrow> string list" where
  "scanLines lines techLower i =
     (if i < length lines then
        (if includes_str (toLowerCase (lines ! i)) techLower then
           (let start = nat (max 0 (int i - 3));
                end' = min (length lines) (i + 4)
            in slice lines start end')
         else scanLines lines techLower (i + 1))
      else [])"
  by pat_completeness auto
termination
  by (relation "measure (\<lambda>(lines, techLower, i). length lines - i)") auto

declare scanLines.simps [simp del]

definition extractRelevantCode :: "string \<Rightarrow> string \<Rightarrow> string" where
  "extractRelevantCode src tech =
     (let lines = split_str CHR 0x0A src;
          techLower = toLowerCase tech;
          relevantLines = scanLines lines techLower 0
      in if length relevantLines > 0 then join_str newline relevantLines
         else join_str newline (slice lines 0 20))"

text \<open>
  \<^verbatim>\<open>detectLanguage\<close>. The lookup is on the table's own keys; a file extension that names a
  member of \<^verbatim>\<open>Object.prototype\<close> is outside the model.
\<close>

definition languageMap :: "(string \<times> string) list" where
  "languageMap =
     [(''js'', ''javascript''), (''ts'', ''typescript''), (''py'', ''python''),
      (''java'', ''java''), (''go'', ''go''), (''rs'', ''rust''), (''cpp'', ''cpp''),
      (''c'', ''c''), (''cs'', ''csharp''), (''php'', ''php''), (''rb'', ''ruby'')]"

definition detectLanguage :: "string \<Rightarrow> string" where
  "detectLanguage filename =
     (let extension = toLowerCase (last (split_str CHR ''.'' filename))
      in case map_of languageMap extension of
           None \<Rightarrow> ''text''
         | Some l \<Rightarrow> l)"

subsection \<open>Synthesis\<close>

text \<open>The decimal numeral of a length, as a template literal prints it.\<close>

fun toString_nat :: "nat \<Rightarrow> string" where
  "toString_nat n =
     (if n < 10 then [''0123456789'' ! n]
      else toString_nat (n div 10) @ [''0123456789'' ! (n mod 10)])"

declare toString_nat.simps [simp del]

definition generateSummary :: "research_query \<Rightarrow> resource list \<Rightarrow> resource list \<Rightarrow> string" where
  "generateSummary query githubResults documentationResults =
     (let topRepos = join_str '', '' (map title (slice githubResults 0 3));
          topDocs = join_str '', '' (map title (slice documentationResults 0 3))
      in trim
           (newline @ ''Research Summary for '' @ technology query @ '':'' @ newline
            @ newline
            @ ''Based on analysis of '' @ toString_nat (length githubResults)
            @ '' repositories and '' @ toString_nat (length documentationResults)
            @ '' documentation sources:'' @ newline
            @ newline
            @ ''Popular repositories: '' @ topRepos @ newline
            @ ''Key documentation: '' @ topDocs @ newline
            @ newline
            @ (case purpose query of
                 Str p \<Rightarrow>
                   (if p \<noteq> [] then
                      ''Purpose alignment: This technology appears well-suited for '' @ p
                    else [])
               | _ \<Rightarrow> [])
            @ newline
            @ newline
            @ ''The ecosystem shows active development with strong community support and comprehensive documentation.''
            @ newline @ ''    ''))"

text \<open>The callback of \<^verbatim>\<open>query.constraints.forEach\<close>: what one constraint pushes.\<close>

definition constraintRecommendations :: "string \<Rightarrow> string list" where
  "constraintRecommendations constraint =
     (if includes_str (toLowerCase constraint) ''performance''
      then [''Evaluate performance benchmarks before implementation''] else [])
     @ (if includes_str (toLowerCase constraint) ''security''
        then [''Review security practices and vulnerability reports''] else [])"

text \<open>
  \<^verbatim>\<open>generateRecommendations\<close>. \<^verbatim>\<open>query.purpose.toLowerCase()\<close> is called without a
  guard: on a missing purpose it throws, before anything is returned.
\<close>

definition generateRecommendations :: "research_query \<Rightarrow> resource list \<Rightarrow> js_error + string list" where
  "generateRecommendations query githubResults =
     (let highStarRepos = filter (\<lambda>r. relevance r > 0.8) githubResults;
          recs1 = (case highStarRepos of
                     [] \<Rightarrow> []
                   | r # _ \<Rightarrow> [''Consider using '' @ title r @ '' as it has high community adoption''])
      in case toLowerCase_method (purpose query) of
           Inl e \<Rightarrow> Inl e
         | Inr lowerPurpose \<Rightarrow>
             (let recs2 = recs1 @ (if includes_str lowerPurpose ''web''
                        then [''Focus on frameworks with strong web support and active maintenance'']
                        else []);
                  recs3 = recs2 @ (if includes_str lowerPurpose ''api''
                        then [''Prioritize libraries with good REST/GraphQL integration'']
                        else []);
                  recs4 = recs3 @ (case constraints query of
                                     None \<Rightarrow> []
                                   | Some cs \<Rightarrow> concat (map constraintRecommendations cs))
              in Inr (recs4 @ [''Set up automated testing and CI/CD pipeline'',
                               ''Plan for regular dependency updates and security patches''])))"

subsection \<open>The outside world\<close>

text \<open>
  An anchor element that the selector matched, with what the callback reads from it:
  \<^verbatim>\<open>$(element).text()\<close> and \<^verbatim>\<open>$(element).attr('href')\<close>.
\<close>

record anchor =
  anchor_text :: string
  anchor_href :: jsval

text \<open>
  An item of the code search: \<^verbatim>\<open>item.url\<close>, \<^verbatim>\<open>item.name\<close>, \<^verbatim>\<open>item.html_url\<close> and
  \<^verbatim>\<open>item.repository.full_name\<close>.
\<close>

record code_item =
  item_url :: string
  item_name :: string
  item_html_url :: string
  repository_full_name :: string

text \<open>
  What the requests of one run return. \<open>Inl\<close> is a rejected or throwing call.
  \<^item> \<open>search_repositories q\<close> and \<open>search_code q\<close>: the GET of the search endpoint with query
    \<open>q\<close>; the value is \<^verbatim>\<open>response.data.items\<close>, \<open>None\<close> when the body has no such array.
  \<^item> \<open>load_anchors url selector\<close>: the GET of a documentation page, \<^verbatim>\<open>cheerio.load\<close> and the
    selection, in document order.
  \<^item> \<open>resolve_url href base\<close>: \<^verbatim>\<open>new URL(href, base).toString()\<close>.
  \<^item> \<open>fetch_content url\<close>: the GET of one file and the decoding of its content to text.
\<close>

record env =
  search_repositories :: "string \<Rightarrow> js_error + repo list option"
  load_anchors :: "string \<Rightarrow> string \<Rightarrow> js_error + anchor list"
  resolve_url :: "string \<Rightarrow> string \<Rightarrow> js_error + string"
  search_code :: "string \<Rightarrow> js_error + code_item list option"
  fetch_content :: "string \<Rightarrow> js_error + string"

text \<open>\<^verbatim>\<open>xs.map(f)\<close> with a callback that may throw: the first throw ends the map.\<close>

fun map_throwing :: "('a \<Rightarrow> js_error + 'b) \<Rightarrow> 'a list \<Rightarrow> js_error + 'b list" where
  "map_throwing f [] = Inr []"
| "map_throwing f (x # xs) =
     (case f x of
        Inl e \<Rightarrow> Inl e
      | Inr y \<Rightarrow> (case map_throwing f xs of
                    Inl e \<Rightarrow> Inl e
                  | Inr ys \<Rightarrow> Inr (y # ys)))"

subsection \<open>The repository adapter\<close>

definition repositoryResource :: "string \<Rightarrow> repo \<Rightarrow> js_error + resource" where
  "repositoryResource tech r =
     (case calculateRelevance r tech of
        Inl e \<Rightarrow> Inl e
      | Inr score \<Rightarrow>
          Inr \<lparr>title = full_name r, url = html_url r, type = Repository, relevance = score\<rparr>)"

text \<open>The body of the \<^verbatim>\<open>try\<close> block of \<^verbatim>\<open>searchGitHub\<close>.\<close>

definition searchGitHub_try :: "env \<Rightarrow> string \<Rightarrow> js_error + resource list" where
  "searchGitHub_try w tech =
     (case search_repositories w
             (tech @ '' language:typescript language:javascript stars:>100'') of
        Inl e \<Rightarrow> Inl e
      | Inr None \<Rightarrow> Inl (TypeError ''Cannot read properties of undefined'')
      | Inr (Some items) \<Rightarrow> map_throwing (repositoryResource tech) items)"

definition searchGitHub :: "env \<Rightarrow> string \<Rightarrow> js_error + resource list" where
  "searchGitHub w tech =
     (case searchGitHub_try w tech of
        Inl e \<Rightarrow> Inr []
      | Inr rs \<Rightarrow> Inr rs)"

subsection \<open>The documentation adapter\<close>

definition hexDigit :: "nat \<Rightarrow> char" where
  "hexDigit n = ''0123456789ABCDEF'' ! n"

text \<open>
  \<^verbatim>\<open>encodeURIComponent\<close>: letters, digits and \<^verbatim>\<open>-_.!~*'()\<close> stay, any other character is
  escaped as a percent sign and its code in hexadecimal.
\<close>

definition encodeChar :: "char \<Rightarrow> string" where
  "encodeChar c =
     (if c \<in> set (''ABCDEFGHIJKLMNOPQRSTUVWXYZabcdefghijklmnopqrstuvwxyz0123456789''
                    @ ''-_.!~*()'' @ [CHR 0x27])
      then [c]
      else [CHR ''%'', hexDigit (of_char c div 16), hexDigit (of_char c mod 16)])"

definition encodeURIComponent :: "string \<Rightarrow> string" where
  "encodeURIComponent s = concat (map encodeChar s)"

definition documentationSites :: "string \<Rightarrow> string list" where
  "documentationSites tech =
     [''https://developer.mozilla.org/en-US/search?q='' @ encodeURIComponent tech,
      ''https://stackoverflow.com/search?q='' @ encodeURIComponent tech,
      ''https://docs.npmjs.com/search?q='' @ encodeURIComponent tech]"

definition anchorSelector :: "string \<Rightarrow> string" where
  "anchorSelector tech = ''a[href*='' @ [CHR 0x22] @ toLowerCase tech @ [CHR 0x22] @ '']''"

text \<open>
  The \<^verbatim>\<open>.each\<close> callback over the matched anchors of one page, with \<^verbatim>\<open>results\<close> passed
  along. A throw of the URL resolver ends the iteration; what was pushed before stays.
\<close>

fun eachAnchor ::
  "env \<Rightarrow> string \<Rightarrow> string \<Rightarrow> anchor list \<Rightarrow> resource list \<Rightarrow> js_error option \<times> resource list"
where
  "eachAnchor w siteUrl tech [] results = (None, results)"
| "eachAnchor w siteUrl tech (a # rest) results =
     (let title' = trim (anchor_text a)
      in case anchor_href a of
           Str href \<Rightarrow>
             (if title' \<noteq> [] \<and> href \<noteq> [] \<and> length title' > 10 then
                (case (if startsWith href ''http'' then Inr href
                       else resolve_url w href siteUrl) of
                   Inl e \<Rightarrow> (Some e, results)
                 | Inr u \<Rightarrow>
                     eachAnchor w siteUrl tech rest
                       (results @ [\<lparr>title = title', url = u, type = Documentation,
                                    relevance = calculateTextRelevance title' tech\<rparr>]))
              else eachAnchor w siteUrl tech rest results)
         | _ \<Rightarrow> eachAnchor w siteUrl tech rest results)"

text \<open>One round of the loop over the sites: the \<^verbatim>\<open>try\<close> block and its \<^verbatim>\<open>catch\<close>.\<close>

definition searchSite :: "env \<Rightarrow> string \<Rightarrow> resource list \<Rightarrow> string \<Rightarrow> resource list" where
  "searchSite w tech results siteUrl =
     (case load_anchors w siteUrl (anchorSelector tech) of
        Inl e \<Rightarrow> results
      | Inr anchors \<Rightarrow> snd (eachAnchor w siteUrl tech anchors results))"

definition collectDocumentation :: "env \<Rightarrow> string \<Rightarrow> resource list" where
  "collectDocumentation w tech = foldl (searchSite w tech) [] (documentationSites tech)"

definition searchDocumentation :: "env \<Rightarrow> string \<Rightarrow> js_error + resource list" where
  "searchDocumentation w tech = Inr (rankDocumentation (collectDocumentation w tech))"

subsection \<open>The code-sample adapter\<close>

definition codeExample :: "string \<Rightarrow> code_item \<Rightarrow> string \<Rightarrow> code_example" where
  "codeExample tech item src =
     \<lparr>language = detectLanguage (item_name item),
      code = extractRelevantCode src tech,
      example_description = ''Example from '' @ repository_full_name item,
      source = item_html_url item\<rparr>"

text \<open>The loop over the items, with \<^verbatim>\<open>examples\<close> passed along; the inner \<^verbatim>\<open>catch\<close> skips.\<close>

fun fetchExamples :: "env \<Rightarrow> string \<Rightarrow> code_item list \<Rightarrow> code_example list \<Rightarrow> code_example list" where
  "fetchExamples w tech [] examples = examples"
| "fetchExamples w tech (item # items) examples =
     (case fetch_content w (item_url item) of
        Inl e \<Rightarrow> fetchExamples w tech items examples
      | Inr src \<Rightarrow> fetchExamples w tech items (examples @ [codeExample tech item src]))"

definition findCodeExamples_try :: "env \<Rightarrow> string \<Rightarrow> js_error + code_example list" where
  "findCodeExamples_try w tech =
     (case search_code w (tech @ '' language:typescript language:javascript'') of
        Inl e \<Rightarrow> Inl e
      | Inr None \<Rightarrow> Inl (TypeError ''undefined is not iterable'')
      | Inr (Some items) \<Rightarrow> Inr (fetchExamples w tech items []))"

definition findCodeExamples :: "env \<Rightarrow> string \<Rightarrow> js_error + code_example list" where
  "findCodeExamples w tech =
     (case findCodeExamples_try w tech of
        Inl e \<Rightarrow> Inr []
      | Inr examples \<Rightarrow> Inr examples)"

subsection \<open>The orchestrator\<close>

text \<open>
  The \<^verbatim>\<open>try\<close> block of \<^verbatim>\<open>researchTopic\<close>. The three adapters read the world and write
  nothing, so \<^verbatim>\<open>Promise.all\<close> is their evaluation one after the other; it rejects as soon
  as one of them does.
\<close>

definition researchTopic_try :: "env \<Rightarrow> research_query \<Rightarrow> js_error + research_result" where
  "researchTopic_try w query =
     (case searchGitHub w (technology query) of
        Inl e \<Rightarrow> Inl e
      | Inr githubResults \<Rightarrow>
     (case searchDocumentation w (technology query) of
        Inl e \<Rightarrow> Inl e
      | Inr documentationResults \<Rightarrow>
     (case findCodeExamples w (technology query) of
        Inl e \<Rightarrow> Inl e
      | Inr examples \<Rightarrow>
     (let summary' = generateSummary query githubResults documentationResults
      in case generateRecommendations query githubResults of
           Inl e \<Rightarrow> Inl e
         | Inr recs \<Rightarrow>
             Inr \<lparr>summary = summary',
                  recommendations = recs,
                  codeExamples = examples,
                  resources = githubResults @ documentationResults\<rparr>))))"

definition researchTopic :: "env \<Rightarrow> research_query \<Rightarrow> js_error + research_result" where
  "researchTopic w query =
     (case researchTopic_try w query of
        Inl e \<Rightarrow> Inl (Error ''Research operation failed'')
      | Inr result \<Rightarrow> Inr result)"

subsection \<open>The specification's wording, for comparison\<close>

text \<open>
  Two rules as the specification words them, to set beside the code. The words of a term
  split on white space are its maximal runs of characters other than white space.
\<close>

fun split_when :: "(char \<Rightarrow> bool) \<Rightarrow> string \<Rightarrow> string list" where
  "split_when p [] = [[]]"
| "split_when p (c # cs) =
     (if p c then [] # split_when p cs
      else (case split_when p cs of
              [] \<Rightarrow> [[c]]
            | w # ws \<Rightarrow> (c # w) # ws))"

definition whitespace_words :: "string \<Rightarrow> string list" where
  "whitespace_words s = filter (\<lambda>w. w \<noteq> []) (split_when isSpace s)"

text \<open>
  The text relevance of the specification: 0.8 when the lower-cased text contains the
  lower-cased term, else the share of the term's white-space-split words found in the
  text, times 0.6.
\<close>

definition textRelevance_spec :: "string \<Rightarrow> string \<Rightarrow> real" where
  "textRelevance_spec body tech =
     (if includes_str (toLowerCase body) (toLowerCase tech) then 0.8
      else real (length (filter (\<lambda>w. includes_str (toLowerCase body) w)
                           (whitespace_words (toLowerCase tech))))
           / real (length (whitespace_words (toLowerCase tech))) * 0.6)"

text \<open>
  The recommendation rules of the specification, on a purpose and a list of constraints
  taken as they are: the first repository resource of relevance above 0.8, then the
  purpose rules, then the rules of each constraint in order, then the two closing
  recommendations.
\<close>

definition recommend_spec :: "string \<Rightarrow> string list \<Rightarrow> resource list \<Rightarrow> string list" where
  "recommend_spec purposeText constraintTexts repoResources =
     (case find (\<lambda>r. relevance r > 0.8) repoResources of
        None \<Rightarrow> []
      | Some r \<Rightarrow> [''Consider using '' @ title r @ '' as it has high community adoption''])
     @ (if includes_str purposeText ''web''
        then [''Focus on frameworks with strong web support and active maintenance''] else [])
     @ (if includes_str purposeText ''api''
        then [''Prioritize libraries with good REST/GraphQL integration''] else [])
     @ concat (map (\<lambda>c.
          (if includes_str c ''performance''
           then [''Evaluate performance benchmarks before implementation''] else [])
          @ (if includes_str c ''security''
             then [''Review security practices and vulnerability reports''] else []))
         constraintTexts)
     @ [''Set up automated testing and CI/CD pipeline'',
        ''Plan for regular dependency updates and security patches'']"

subsection \<open>Example inputs\<close>

definition exampleDoc :: "real \<Rightarrow> resource" where
  "exampleDoc score =
     \<lparr>title = ''React hooks reference'', url = ''https://react.dev/reference'',
      type = Documentation, relevance = score\<rparr>"

definition exampleCandidates :: "resource list" where
  "exampleCandidates =
     map exampleDoc [0.8, 0.3, 0.6, 0.8, 0.6, 0.8, 0.2, 0.6, 0.8, 0.6, 0.8, 0.4, 0.8, 0.6]"

definition exampleFile :: string where
  "exampleFile =
     join_str newline
       [''import api from lib'', ''const a = 1'', ''const b = 2'', ''const c = 3'',
        ''const app = React.create()'', ''const d = 4'', ''const e = React.use()'',
        ''const f = 6'', ''const g = 7'', ''export default app'']"

definition exampleRepo :: repo where
  "exampleRepo =
     \<lparr>full_name = ''facebook/react'', html_url = ''https://github.com/facebook/react'',
      name = ''react'', description = Null, stargazers_count = 200000\<rparr>"

definition exampleAnchor :: anchor where
  "exampleAnchor =
     \<lparr>anchor_text = ''  React on GitHub  '',
      anchor_href = Str ''https://github.com/facebook/react''\<rparr>"

definition exampleItem :: code_item where
  "exampleItem =
     \<lparr>item_url = ''https://api.github.com/repos/a/b/contents/app.ts'',
      item_name = ''app.ts'',
      item_html_url = ''https://github.com/a/b/blob/main/app.ts'',
      repository_full_name = ''a/b''\<rparr>"

definition goneItem :: code_item where
  "goneItem =
     \<lparr>item_url = ''https://api.github.com/repos/c/d/contents/gone.js'',
      item_name = ''gone.js'',
      item_html_url = ''https://github.com/c/d/blob/main/gone.js'',
      repository_full_name = ''c/d''\<rparr>"

definition exampleWorld :: env where
  "exampleWorld =
     \<lparr>search_repositories = (\<lambda>q. Inr (Some [exampleRepo])),
      load_anchors = (\<lambda>site selector.
         if site = ''https://developer.mozilla.org/en-US/search?q=react''
         then Inr [exampleAnchor]
         else Inl (Error ''timeout of 5000ms exceeded'')),
      resolve_url = (\<lambda>href base. Inl (TypeError ''Invalid URL'')),
      search_code = (\<lambda>q. Inr (Some [goneItem, exampleItem])),
      fetch_content = (\<lambda>u.
         if u = ''https://api.github.com/repos/a/b/contents/app.ts''
         then Inr ''const app = React.create()''
         else Inl (Error ''Request failed with status code 404''))\<rparr>"

definition offlineWorld :: env where
  "offlineWorld =
     \<lparr>search_repositories = (\<lambda>q. Inl (Error ''Network Error'')),
      load_anchors = (\<lambda>site selector. Inl (Error ''Network Error'')),
      resolve_url = (\<lambda>href base. Inl (TypeError ''Invalid URL'')),
      search_code = (\<lambda>q. Inl (Error ''Network Error'')),
      fetch_content = (\<lambda>u. Inl (Error ''Network Error''))\<rparr>"

definition exampleQuery :: research_query where
  "exampleQuery =
     \<lparr>technology = ''react'', purpose = Str ''building a Web dashboard'',
      constraints = Some [''High Performance'']\<rparr>"

section \<open>Properties\<close>

subsection \<open>Auxiliary facts\<close>

lemma split_str_nonempty: "split_str sep s \<noteq> []"
  by (induction s) (auto split: list.splits)

lemma includes_str_Nil_right: "includes_str s []"
  by (cases s) auto

lemma startsWith_Nil_left: "startsWith [] t = (t = [])"
  by (cases t) auto

lemma toLowerCase_Nil_iff: "toLowerCase s = [] \<longleftrightarrow> s = []"
  by (simp add: toLowerCase_def)

lemma descriptionMatches_total:
  "descriptionMatches d tech =
     Inr (case d of Str s \<Rightarrow> s \<noteq> [] \<and> includes_str (toLowerCase s) (toLowerCase tech) | _ \<Rightarrow> False)"
  by (cases d) (simp_all add: descriptionMatches_def)

lemma calculateRelevance_value:
  "calculateRelevance r tech =
     Inr (min ((if includes_str (toLowerCase (name r)) (toLowerCase tech) then 0.4 else 0)
               + (if (case description r of
                        Str s \<Rightarrow> s \<noteq> [] \<and> includes_str (toLowerCase s) (toLowerCase tech)
                      | _ \<Rightarrow> False) then 0.3 else 0)
               + min (real (stargazers_count r) / 10000) 0.3) 1)"
  by (simp add: calculateRelevance_def descriptionMatches_total Let_def)


lemma scaled_fraction_bounds:
  fixes m w :: nat
  assumes "m \<le> w" and "0 < w"
  shows "0 \<le> real m / real w * 0.6 \<and> real m / real w * 0.6 \<le> 1"
proof -
  define x where "x = real m / real w"
  have "x \<le> 1"
    using assms by (simp add: x_def)
  moreover have "0 \<le> x"
    by (simp add: x_def)
  ultimately have "0 \<le> x * 0.6 \<and> x * 0.6 \<le> 1"
    by linarith
  then show ?thesis
    by (simp only: x_def)
qed

lemma length_split_str_pos: "0 < length (split_str sep s)"
  using split_str_nonempty [of sep s] by simp

lemma calculateTextRelevance_bounds:
  "0 \<le> calculateTextRelevance body tech \<and> calculateTextRelevance body tech \<le> 1"
proof (cases "includes_str (toLowerCase body) (toLowerCase tech)")
  case True
  then show ?thesis
    by (simp add: calculateTextRelevance_def)
next
  case False
  let ?ws = "split_str CHR '' '' (toLowerCase tech)"
  let ?m = "filter (\<lambda>word. includes_str (toLowerCase body) word) ?ws"
  have eq: "calculateTextRelevance body tech = real (length ?m) / real (length ?ws) * 0.6"
    using False by (simp only: calculateTextRelevance_def Let_def if_False)
  show ?thesis
    unfolding eq
    by (rule scaled_fraction_bounds) (rule length_filter_le, rule length_split_str_pos)
qed

lemma slice_from_zero: "slice xs 0 n = take n xs"
  by (simp add: slice_def)

lemma sorted_wrt_desc_sort_key:
  fixes f :: "'a \<Rightarrow> real"
  shows "sorted_wrt (\<lambda>a b. f b \<le> f a) (sort_key (\<lambda>r. - f r) xs)"
proof -
  have "sorted (map (\<lambda>r. - f r) (sort_key (\<lambda>r. - f r) xs))"
    by (rule sorted_sort_key)
  then have "sorted_wrt (\<lambda>a b. - f a \<le> - f b) (sort_key (\<lambda>r. - f r) xs)"
    by (simp only: sorted_map)
  then show ?thesis
    by (simp only: neg_le_iff_le)
qed

lemma slice_eq_map_nth:
  "b \<le> length xs \<Longrightarrow> slice xs a b = map (\<lambda>k. xs ! k) [a..<b]"
  unfolding slice_def by (rule nth_equalityI) auto

lemma scanLines_no_match:
  "(\<forall>j. k \<le> j \<and> j < length lines \<longrightarrow> \<not> includes_str (toLowerCase (lines ! j)) t)
   \<Longrightarrow> scanLines lines t k = []"
proof (induction lines t k rule: scanLines.induct)
  case (1 lines t k)
  show ?case
  proof (cases "k < length lines")
    case True
    then have miss: "\<not> includes_str (toLowerCase (lines ! k)) t"
      using "1.prems" by simp
    have "scanLines lines t k = scanLines lines t (k + 1)"
      using True miss by (subst scanLines.simps) simp
    also have "\<dots> = []"
      using True miss "1.prems" by (intro "1.IH") auto
    finally show ?thesis .
  next
    case False
    then show ?thesis
      by (subst scanLines.simps) simp
  qed
qed

lemma scanLines_first_match:
  "k \<le> i \<Longrightarrow> i < length lines \<Longrightarrow> includes_str (toLowerCase (lines ! i)) t
   \<Longrightarrow> (\<forall>j. k \<le> j \<and> j < i \<longrightarrow> \<not> includes_str (toLowerCase (lines ! j)) t)
   \<Longrightarrow> scanLines lines t k = slice lines (nat (max 0 (int i - 3))) (min (length lines) (i + 4))"
proof (induction lines t k rule: scanLines.induct)
  case (1 lines t k)
  show ?case
  proof (cases "k = i")
    case True
    then show ?thesis
      using "1.prems" by (subst scanLines.simps) (simp add: Let_def)
  next
    case False
    then have lt: "k < i"
      using "1.prems" by simp
    then have inb: "k < length lines"
      using "1.prems" by simp
    have miss: "\<not> includes_str (toLowerCase (lines ! k)) t"
      using lt "1.prems" by simp
    have "scanLines lines t k = scanLines lines t (k + 1)"
      using inb miss by (subst scanLines.simps) simp
    also have "\<dots> = slice lines (nat (max 0 (int i - 3))) (min (length lines) (i + 4))"
      using inb miss lt "1.prems" by (intro "1.IH") auto
    finally show ?thesis .
  qed
qed

lemma window_nonempty:
  "i < length lines \<Longrightarrow> slice lines (nat (max 0 (int i - 3))) (min (length lines) (i + 4)) \<noteq> []"
  by (auto simp: slice_def)

lemma toLowerChar_cases:
  "toLowerChar c = c
   \<or> (c \<in> set ''ABCDEFGHIJKLMNOPQRSTUVWXYZ'' \<and> toLowerChar c \<in> set ''abcdefghijklmnopqrstuvwxyz'')"
proof (cases "map_of (zip ''ABCDEFGHIJKLMNOPQRSTUVWXYZ'' ''abcdefghijklmnopqrstuvwxyz'') c")
  case None
  then have "toLowerChar c = c"
    by (simp only: toLowerChar_def option.case)
  then show ?thesis
    by (rule disjI1)
next
  case (Some l)
  then have m: "(c, l) \<in> set (zip ''ABCDEFGHIJKLMNOPQRSTUVWXYZ'' ''abcdefghijklmnopqrstuvwxyz'')"
    by (rule map_of_SomeD)
  have a: "c \<in> set ''ABCDEFGHIJKLMNOPQRSTUVWXYZ''"
    using m by (rule set_zip_leftD)
  have b: "l \<in> set ''abcdefghijklmnopqrstuvwxyz''"
    using m by (rule set_zip_rightD)
  have "toLowerChar c = l"
    using Some by (simp only: toLowerChar_def option.case)
  with a b show ?thesis
    by blast
qed

lemma letters_not_space:
  "c \<in> set ''ABCDEFGHIJKLMNOPQRSTUVWXYZ'' \<or> c \<in> set ''abcdefghijklmnopqrstuvwxyz'' \<Longrightarrow> \<not> isSpace c"
  by (auto simp: isSpace_def)

lemma split_when_eq_split_str:
  "(\<And>c. c \<in> set s \<Longrightarrow> p c = (c = sep)) \<Longrightarrow> split_when p s = split_str sep s"
  by (induction s) simp_all

lemma split_str_map:
  assumes "\<And>c. (f c = sep) = (c = sep)"
  shows "split_str sep (map f s) = map (map f) (split_str sep s)"
proof (induction s)
  case Nil
  show ?case by simp
next
  case (Cons c s)
  obtain w ws where ws: "split_str sep s = w # ws"
    using split_str_nonempty [of sep s] by (cases "split_str sep s") auto
  show ?case
    using Cons assms by (simp add: ws)
qed

lemma case_filter_find:
  "(case filter P xs of [] \<Rightarrow> a | r # _ \<Rightarrow> f r) = (case find P xs of None \<Rightarrow> a | Some r \<Rightarrow> f r)"
  by (induction xs) simp_all

lemma isSpace_iff_space_toLowerCase:
  assumes "\<forall>c \<in> set tech. isSpace c \<longrightarrow> c = CHR '' ''"
    and "c \<in> set (toLowerCase tech)"
  shows "isSpace c = (c = CHR '' '')"
proof -
  obtain c0 where c0: "c0 \<in> set tech" and c: "c = toLowerChar c0"
    using assms(2) by (auto simp: toLowerCase_def)
  have "isSpace c = isSpace c0"
    using toLowerChar_cases [of c0] letters_not_space [of c0] letters_not_space [of "toLowerChar c0"]
    unfolding c by metis
  moreover have "isSpace c0 = (c0 = CHR '' '')"
    using assms(1) c0 by (auto simp: isSpace_def)
  moreover have "(c = CHR '' '') = (c0 = CHR '' '')"
    using toLowerChar_cases [of c0] letters_not_space [of c0] letters_not_space [of "toLowerChar c0"]
    unfolding c by (metis isSpace_def list.set_intros(1))
  ultimately show ?thesis
    by simp
qed

lemma whitespace_words_single_spaces:
  assumes "\<forall>c \<in> set tech. isSpace c \<longrightarrow> c = CHR '' ''"
    and "[] \<notin> set (split_str CHR '' '' tech)"
  shows "whitespace_words (toLowerCase tech) = split_str CHR '' '' (toLowerCase tech)"
proof -
  have a: "split_when isSpace (toLowerCase tech) = split_str CHR '' '' (toLowerCase tech)"
    by (rule split_when_eq_split_str) (rule isSpace_iff_space_toLowerCase [OF assms(1)])
  have sp: "\<And>c. (toLowerChar c = CHR '' '') = (c = CHR '' '')"
    using toLowerChar_cases letters_not_space
    by (metis isSpace_def list.set_intros(1))
  have b: "split_str CHR '' '' (toLowerCase tech)
             = map (map toLowerChar) (split_str CHR '' '' tech)"
    unfolding toLowerCase_def by (rule split_str_map) (rule sp)
  have "[] \<notin> set (map (map toLowerChar) (split_str CHR '' '' tech))"
    using assms(2) by auto
  then have "filter (\<lambda>w. w \<noteq> []) (split_str CHR '' '' (toLowerCase tech))
               = split_str CHR '' '' (toLowerCase tech)"
    unfolding b by (intro filter_True) auto
  then show ?thesis
    by (simp only: whitespace_words_def a)
qed

lemma concat_constraintRecommendations:
  "concat (map constraintRecommendations cs) =
     concat (map (\<lambda>c.
          (if includes_str c ''performance''
           then [''Evaluate performance benchmarks before implementation''] else [])
          @ (if includes_str c ''security''
             then [''Review security practices and vulnerability reports''] else []))
         (map toLowerCase cs))"
  by (induction cs) (simp_all add: constraintRecommendations_def)

lemma ends_with_closing: "\<exists>front. a @ b @ c @ d @ e = front @ e"
  by (metis append.assoc)

lemma searchGitHub_total: "\<exists>rs. searchGitHub w tech = Inr rs"
  by (cases "searchGitHub_try w tech") (simp_all add: searchGitHub_def)

lemma findCodeExamples_total: "\<exists>xs. findCodeExamples w tech = Inr xs"
  by (cases "findCodeExamples_try w tech") (simp_all add: findCodeExamples_def)

lemma fetchExamples_concat:
  "fetchExamples w tech items acc =
     acc @ concat (map (\<lambda>item. case fetch_content w (item_url item) of
                                  Inl e \<Rightarrow> []
                                | Inr src \<Rightarrow> [codeExample tech item src]) items)"
  by (induction items arbitrary: acc) (auto split: sum.splits)





lemma generateRecommendations_Str:
  "purpose q = Str p \<Longrightarrow> \<exists>recs. generateRecommendations q g = Inr recs"
  by (simp add: generateRecommendations_def Let_def)

lemma example_searchGitHub:
  "searchGitHub exampleWorld ''react'' =
     Inr [\<lparr>title = ''facebook/react'', url = ''https://github.com/facebook/react'',
           type = Repository, relevance = 0.7\<rparr>]"
  by (simp add: searchGitHub_def searchGitHub_try_def exampleWorld_def exampleRepo_def
        repositoryResource_def calculateRelevance_def descriptionMatches_def
        toLowerCase_def toLowerChar_def)

lemma example_documentationSites:
  "documentationSites ''react'' =
     [''https://developer.mozilla.org/en-US/search?q=react'',
      ''https://stackoverflow.com/search?q=react'',
      ''https://docs.npmjs.com/search?q=react'']"
  by (simp add: documentationSites_def encodeURIComponent_def encodeChar_def)

lemma example_title: "trim ''  React on GitHub  '' = ''React on GitHub''"
  by (simp add: trim_def isSpace_def)

lemma example_textRelevance: "calculateTextRelevance ''React on GitHub'' ''react'' = 0.8"
  by (simp add: calculateTextRelevance_def toLowerCase_def toLowerChar_def)

lemma example_collectDocumentation:
  "collectDocumentation exampleWorld ''react'' =
     [\<lparr>title = ''React on GitHub'', url = ''https://github.com/facebook/react'',
       type = Documentation, relevance = 0.8\<rparr>]"
  by (simp add: collectDocumentation_def example_documentationSites searchSite_def
        exampleWorld_def exampleAnchor_def example_title example_textRelevance)

lemma example_searchDocumentation:
  "searchDocumentation exampleWorld ''react'' =
     Inr [\<lparr>title = ''React on GitHub'', url = ''https://github.com/facebook/react'',
           type = Documentation, relevance = 0.8\<rparr>]"
  by (simp add: searchDocumentation_def example_collectDocumentation rankDocumentation_def
        slice_def)

lemma example_findCodeExamples:
  "findCodeExamples exampleWorld ''react'' =
     Inr [codeExample ''react'' exampleItem ''const app = React.create()'']"
  by (simp add: findCodeExamples_def findCodeExamples_try_def exampleWorld_def
        exampleItem_def goneItem_def)

subsection \<open>Relevance scores\<close>

text \<open>
  Claim C2. For every repository record (its star count is a count, so not negative) and
  every technology string, and for every text string, the score is in the unit interval:
  \<^verbatim>\<open>calculateRelevance\<close> returns a value \<open>s\<close> with \<open>0 \<le> s \<le> 1\<close>, and so does
  \<^verbatim>\<open>calculateTextRelevance\<close>, whatever the star count.
\<close>

theorem relevance_in_unit_interval:
  "(\<exists>s. calculateRelevance r tech = Inr s \<and> 0 \<le> s \<and> s \<le> 1)
   \<and> 0 \<le> calculateTextRelevance body tech2 \<and> calculateTextRelevance body tech2 \<le> 1"
  using calculateTextRelevance_bounds [of body tech2]
  by (simp add: calculateRelevance_value)

theorem relevance_in_unit_interval_witness:
  "calculateRelevance
     \<lparr>full_name = ''a/b'', html_url = ''u'',
      name = ''react'', description = Str ''React library'', stargazers_count = 100000000\<rparr> ''react'' = Inr 1
   \<and> calculateTextRelevance ''Machine basics'' ''machine learning'' = 0.3"
  using relevance_in_unit_interval [of "\<lparr>full_name = ''a/b'', html_url = ''u'',
      name = ''react'', description = Str ''React library'', stargazers_count = 100000000\<rparr>" "''react''" "''Machine basics''" "''machine learning''"]
  by (simp add: calculateRelevance_def descriptionMatches_def calculateTextRelevance_def toLowerCase_def toLowerChar_def)

text \<open>
  Claim C3. For a non-empty technology term, the repository score is the clamp to the unit
  interval of 0.4 for a name that contains the term without regard to case, plus 0.3 for
  a description that does, plus \<open>min (stars / 10000) 0.3\<close>. The witness is the score 0.7
  of the repository named react with an empty description and 200000 stars.
\<close>

theorem repositoryRelevance_formula:
  assumes "tech \<noteq> []"
  shows "calculateRelevance r tech =
     Inr (max 0 (min 1
       ((if includes_str (toLowerCase (name r)) (toLowerCase tech) then 0.4 else 0)
        + (if (case description r of
                 Str d \<Rightarrow> includes_str (toLowerCase d) (toLowerCase tech)
               | _ \<Rightarrow> False) then 0.3 else 0)
        + min (real (stargazers_count r) / 10000) 0.3)))"
proof -
  have "(case description r of
           Str s \<Rightarrow> s \<noteq> [] \<and> includes_str (toLowerCase s) (toLowerCase tech)
         | _ \<Rightarrow> False)
        = (case description r of
             Str d \<Rightarrow> includes_str (toLowerCase d) (toLowerCase tech)
           | _ \<Rightarrow> False)"
    using assms by (cases "description r") (auto simp: toLowerCase_def)
  then show ?thesis
    by (simp add: calculateRelevance_value min.commute)
qed

theorem repositoryRelevance_react:
  "''react'' \<noteq> [] \<and>
   calculateRelevance
     \<lparr>full_name = ''facebook/react'', html_url = ''https://github.com/facebook/react'',
      name = ''react'', description = Str [], stargazers_count = 200000\<rparr> ''react'' = Inr 0.7"
  using repositoryRelevance_formula [where tech = "''react''" and r =
     "\<lparr>full_name = ''facebook/react'', html_url = ''https://github.com/facebook/react'',
      name = ''react'', description = Str [], stargazers_count = 200000\<rparr>"]
  by (simp add: toLowerCase_def toLowerChar_def)

text \<open>
  Claim C4, as the code has it. The text score is 0.8 when the lower-cased text contains
  the lower-cased term; otherwise the lower-cased term is split at every single space
  character (other white space does not split, and an empty piece between two spaces is
  a word), and the score is the share of the pieces that occur in the lower-cased text,
  times 0.6. For a term whose only white space is single spaces between its words this
  is the rule of the specification. The two examples score 0.8 and 0.3.
\<close>

theorem textRelevance_formula:
  "calculateTextRelevance body tech =
     (if includes_str (toLowerCase body) (toLowerCase tech) then 0.8
      else real (length (filter (\<lambda>w. includes_str (toLowerCase body) w)
                           (split_str CHR '' '' (toLowerCase tech))))
           / real (length (split_str CHR '' '' (toLowerCase tech))) * 0.6)
   \<and> ((\<forall>c \<in> set tech. isSpace c \<longrightarrow> c = CHR '' '') \<and> [] \<notin> set (split_str CHR '' '' tech)
        \<longrightarrow> calculateTextRelevance body tech = textRelevance_spec body tech)
   \<and> calculateTextRelevance ''React Tutorial for Beginners'' ''react'' = 0.8
   \<and> calculateTextRelevance ''Machine basics'' ''machine learning'' = 0.3"
proof -
  have a: "calculateTextRelevance body tech =
     (if includes_str (toLowerCase body) (toLowerCase tech) then 0.8
      else real (length (filter (\<lambda>w. includes_str (toLowerCase body) w)
                           (split_str CHR '' '' (toLowerCase tech))))
           / real (length (split_str CHR '' '' (toLowerCase tech))) * 0.6)"
    by (simp only: calculateTextRelevance_def Let_def)
  have b: "calculateTextRelevance body tech = textRelevance_spec body tech"
    if "\<forall>c \<in> set tech. isSpace c \<longrightarrow> c = CHR '' ''" and "[] \<notin> set (split_str CHR '' '' tech)"
    unfolding a textRelevance_spec_def whitespace_words_single_spaces [OF that] ..
  have c: "calculateTextRelevance ''React Tutorial for Beginners'' ''react'' = 0.8"
    by (simp add: calculateTextRelevance_def toLowerCase_def toLowerChar_def)
  have d: "calculateTextRelevance ''Machine basics'' ''machine learning'' = 0.3"
    by (simp add: calculateTextRelevance_def toLowerCase_def toLowerChar_def)
  show ?thesis
  proof (intro conjI impI)
    show "calculateTextRelevance body tech =
     (if includes_str (toLowerCase body) (toLowerCase tech) then 0.8
      else real (length (filter (\<lambda>w. includes_str (toLowerCase body) w)
                           (split_str CHR '' '' (toLowerCase tech))))
           / real (length (split_str CHR '' '' (toLowerCase tech))) * 0.6)"
      by (rule a)
    show "calculateTextRelevance body tech = textRelevance_spec body tech"
      if "(\<forall>c \<in> set tech. isSpace c \<longrightarrow> c = CHR '' '') \<and> [] \<notin> set (split_str CHR '' '' tech)"
      using that by (intro b) simp_all
    show "calculateTextRelevance ''React Tutorial for Beginners'' ''react'' = 0.8"
      by (rule c)
    show "calculateTextRelevance ''Machine basics'' ''machine learning'' = 0.3"
      by (rule d)
  qed
qed

theorem textRelevance_formula_witness:
  "calculateTextRelevance ''Machine basics'' ''machine learning''
     = textRelevance_spec ''Machine basics'' ''machine learning''
   \<and> textRelevance_spec ''Machine basics'' ''machine learning'' = 0.3"
  using textRelevance_formula [of "''Machine basics''" "''machine learning''"]
  by (simp add: isSpace_def)

text \<open>
  The wording of claim C4, with words split on white space, fails on the code: for a
  term with a tab between its two words the code finds one piece and scores 0, and for
  a term with two spaces between them it finds three pieces, the empty one among them,
  and scores 0.4, where the specification's rule gives 0.3 both times.
\<close>

theorem textRelevance_whitespace_counterexample:
  "calculateTextRelevance ''Machine basics'' (''machine'' @ [CHR 0x09] @ ''learning'') = 0
   \<and> textRelevance_spec ''Machine basics'' (''machine'' @ [CHR 0x09] @ ''learning'') = 0.3
   \<and> calculateTextRelevance ''Machine basics'' ''machine  learning'' = 0.4
   \<and> textRelevance_spec ''Machine basics'' ''machine  learning'' = 0.3"
  by (simp add: calculateTextRelevance_def textRelevance_spec_def whitespace_words_def
        isSpace_def toLowerCase_def toLowerChar_def)

text \<open>
  Claim C10. For a repository whose description is undefined, null or the empty string,
  the description test is false without a call of a string method, no error is raised
  and no description bonus is given: the score is the name bonus plus the star bonus,
  at most 1.
\<close>

theorem missing_description_no_bonus:
  assumes "description r = Undefined \<or> description r = Null \<or> description r = Str []"
  shows "descriptionMatches (description r) tech = Inr False
     \<and> calculateRelevance r tech =
       Inr (min ((if includes_str (toLowerCase (name r)) (toLowerCase tech) then 0.4 else 0)
                 + min (real (stargazers_count r) / 10000) 0.3) 1)"
  using assms by (auto simp: calculateRelevance_def descriptionMatches_def Let_def)

theorem missing_description_no_bonus_witness:
  "(description \<lparr>full_name = ''sveltejs/kit'', html_url = ''https://github.com/sveltejs/kit'',
        name = ''svelte-kit'', description = Null, stargazers_count = 5000\<rparr> = Undefined
    \<or> description \<lparr>full_name = ''sveltejs/kit'', html_url = ''https://github.com/sveltejs/kit'',
        name = ''svelte-kit'', description = Null, stargazers_count = 5000\<rparr> = Null
    \<or> description \<lparr>full_name = ''sveltejs/kit'', html_url = ''https://github.com/sveltejs/kit'',
        name = ''svelte-kit'', description = Null, stargazers_count = 5000\<rparr> = Str [])
   \<and> calculateRelevance
        \<lparr>full_name = ''sveltejs/kit'', html_url = ''https://github.com/sveltejs/kit'',
         name = ''svelte-kit'', description = Null, stargazers_count = 5000\<rparr> ''Svelte'' = Inr 0.7"
  using missing_description_no_bonus [where tech = "''Svelte''" and r =
     "\<lparr>full_name = ''sveltejs/kit'', html_url = ''https://github.com/sveltejs/kit'',
       name = ''svelte-kit'', description = Null, stargazers_count = 5000\<rparr>"]
  by (simp add: toLowerCase_def toLowerChar_def)

subsection \<open>Ranking of the documentation results\<close>

text \<open>
  Claim C5. Whatever candidates the documentation sites gave, the list that the
  documentation search returns has only entries of relevance above 0.3, is in descending
  order of relevance and has at most 10 entries; and the search returns this ranking of
  the candidates it collected.
\<close>

theorem documentation_ranking:
  "(\<forall>r \<in> set (rankDocumentation candidates). relevance r > 0.3)
   \<and> sorted_wrt (\<lambda>a b. relevance a \<ge> relevance b) (rankDocumentation candidates)
   \<and> length (rankDocumentation candidates) \<le> 10
   \<and> searchDocumentation w tech = Inr (rankDocumentation (collectDocumentation w tech))"
proof -
  let ?kept = "filter (\<lambda>r. relevance r > 0.3) candidates"
  let ?sorted = "sort_key (\<lambda>r. - relevance r) ?kept"
  have eq: "rankDocumentation candidates = take 10 ?sorted"
    unfolding rankDocumentation_def slice_from_zero ..
  have a: "relevance r > 0.3" if "r \<in> set (take 10 ?sorted)" for r
  proof -
    have "r \<in> set ?sorted"
      using that by (rule in_set_takeD)
    then have "r \<in> set ?kept"
      by (simp only: set_sort)
    then show ?thesis
      by simp
  qed
  have b: "sorted_wrt (\<lambda>a b. relevance a \<ge> relevance b) (take 10 ?sorted)"
    by (rule sorted_wrt_take) (rule sorted_wrt_desc_sort_key)
  have c: "length (take 10 ?sorted) \<le> 10"
    by simp
  have d: "searchDocumentation w tech = Inr (rankDocumentation (collectDocumentation w tech))"
    by (simp only: searchDocumentation_def)
  show ?thesis
    unfolding eq [symmetric] using a b c d eq by metis
qed

lemma exampleRanking:
  "map relevance (rankDocumentation exampleCandidates)
     = [0.8, 0.8, 0.8, 0.8, 0.8, 0.8, 0.6, 0.6, 0.6, 0.6]"
  by (simp add: rankDocumentation_def slice_def exampleCandidates_def exampleDoc_def)

theorem documentation_ranking_witness:
  "length (filter (\<lambda>r. relevance r > 0.3) exampleCandidates) = 12
   \<and> length (rankDocumentation exampleCandidates) \<le> 10
   \<and> sorted_wrt (\<lambda>a b. relevance a \<ge> relevance b) (rankDocumentation exampleCandidates)
   \<and> map relevance (rankDocumentation exampleCandidates)
       = [0.8, 0.8, 0.8, 0.8, 0.8, 0.8, 0.6, 0.6, 0.6, 0.6]"
proof -
  have "length (filter (\<lambda>r. relevance r > 0.3) exampleCandidates) = 12"
    by (simp add: exampleCandidates_def exampleDoc_def)
  then show ?thesis
    using documentation_ranking [of exampleCandidates] exampleRanking by blast
qed

subsection \<open>The context window of a code sample\<close>

text \<open>
  Claim C6. If no line of the file contains the term (case ignored), the extract is the
  first 20 lines joined by newlines; if the first line that contains it has index \<open>i\<close>,
  the extract is the lines with index from \<open>max 0 (i - 3)\<close> up to, not including,
  \<open>min lineCount (i + 4)\<close>, joined by newlines, whatever the later lines hold.
\<close>

theorem extractRelevantCode_window:
  "(let lines = split_str CHR 0x0A src;
        hit = (\<lambda>l. includes_str (toLowerCase l) (toLowerCase tech))
    in ((\<forall>l \<in> set lines. \<not> hit l)
          \<longrightarrow> extractRelevantCode src tech = join_str newline (take 20 lines))
       \<and> (\<forall>i. i < length lines \<and> hit (lines ! i) \<and> (\<forall>j < i. \<not> hit (lines ! j))
          \<longrightarrow> extractRelevantCode src tech =
                join_str newline
                  (map (\<lambda>k. lines ! k) [nat (max 0 (int i - 3)) ..< min (length lines) (i + 4)])))"
proof -
  let ?lines = "split_str CHR 0x0A src"
  let ?t = "toLowerCase tech"
  have none: "extractRelevantCode src tech = join_str newline (take 20 ?lines)"
    if "\<forall>l \<in> set ?lines. \<not> includes_str (toLowerCase l) ?t"
  proof -
    have "scanLines ?lines ?t 0 = []"
      using that by (intro scanLines_no_match) simp
    then show ?thesis
      by (simp add: extractRelevantCode_def Let_def slice_from_zero)
  qed
  have some: "extractRelevantCode src tech =
      join_str newline
        (map (\<lambda>k. ?lines ! k) [nat (max 0 (int i - 3)) ..< min (length ?lines) (i + 4)])"
    if "i < length ?lines" and "includes_str (toLowerCase (?lines ! i)) ?t"
      and "\<forall>j < i. \<not> includes_str (toLowerCase (?lines ! j)) ?t" for i
  proof -
    have scan: "scanLines ?lines ?t 0 =
        slice ?lines (nat (max 0 (int i - 3))) (min (length ?lines) (i + 4))"
      using that by (intro scanLines_first_match) auto
    have "slice ?lines (nat (max 0 (int i - 3))) (min (length ?lines) (i + 4)) \<noteq> []"
      using that(1) by (rule window_nonempty)
    then have "extractRelevantCode src tech =
        join_str newline (slice ?lines (nat (max 0 (int i - 3))) (min (length ?lines) (i + 4)))"
      by (simp add: extractRelevantCode_def Let_def scan)
    then show ?thesis
      by (simp add: slice_eq_map_nth)
  qed
  show ?thesis
    unfolding Let_def using none some by blast
qed

lemma exampleFile_lines:
  "split_str CHR 0x0A exampleFile =
       [''import api from lib'', ''const a = 1'', ''const b = 2'', ''const c = 3'',
        ''const app = React.create()'', ''const d = 4'', ''const e = React.use()'',
        ''const f = 6'', ''const g = 7'', ''export default app'']"
  by (simp add: exampleFile_def newline_def)

theorem extractRelevantCode_window_witness:
  "extractRelevantCode exampleFile ''React'' =
     join_str newline
       [''const a = 1'', ''const b = 2'', ''const c = 3'',
        ''const app = React.create()'', ''const d = 4'', ''const e = React.use()'',
        ''const f = 6'']
   \<and> extractRelevantCode exampleFile ''Vue'' = exampleFile"
proof -
  note w = extractRelevantCode_window [of exampleFile, unfolded Let_def exampleFile_lines]
  have a: "extractRelevantCode exampleFile ''React'' =
     join_str newline
       [''const a = 1'', ''const b = 2'', ''const c = 3'',
        ''const app = React.create()'', ''const d = 4'', ''const e = React.use()'',
        ''const f = 6'']"
    using w [of "''React''", THEN conjunct2, THEN spec, of 4]
    by (simp add: toLowerCase_def toLowerChar_def numeral_eq_Suc All_less_Suc upt_rec)
  have b: "extractRelevantCode exampleFile ''Vue'' = exampleFile"
    using w [of "''Vue''", THEN conjunct1]
    by (simp add: toLowerCase_def toLowerChar_def exampleFile_def)
  show ?thesis
    using a b by simp
qed

subsection \<open>Recommendations\<close>

text \<open>
  Claim C9, as the code has it. For a query whose purpose is a string, the
  recommendations are, in this order: one naming the first repository resource of
  relevance above 0.8, if there is one; the web and the API recommendation, if the
  lower-cased purpose contains web or api; for each constraint in order, the performance
  and the security recommendation, if the lower-cased constraint contains performance
  or security; and the two closing recommendations, so that there are at least two.
\<close>

theorem recommendations_rule_order:
  assumes "purpose q = Str p"
  shows "\<exists>recs front.
           generateRecommendations q repos = Inr recs
           \<and> recs = recommend_spec (toLowerCase p)
                      (map toLowerCase (case constraints q of None \<Rightarrow> [] | Some cs \<Rightarrow> cs)) repos
           \<and> recs = front @ [''Set up automated testing and CI/CD pipeline'',
                              ''Plan for regular dependency updates and security patches'']
           \<and> 2 \<le> length recs"
proof -
  let ?recs = "recommend_spec (toLowerCase p)
                 (map toLowerCase (case constraints q of None \<Rightarrow> [] | Some cs \<Rightarrow> cs)) repos"
  have gen: "generateRecommendations q repos = Inr ?recs"
    using assms
    by (cases "constraints q")
       (simp_all add: generateRecommendations_def recommend_spec_def Let_def
          case_filter_find concat_constraintRecommendations)
  have "\<exists>front. ?recs =
      front @ [''Set up automated testing and CI/CD pipeline'',
               ''Plan for regular dependency updates and security patches'']"
    unfolding recommend_spec_def by (rule ends_with_closing)
  then obtain front where fr: "?recs =
      front @ [''Set up automated testing and CI/CD pipeline'',
               ''Plan for regular dependency updates and security patches'']"
    by (rule exE)
  have len: "2 \<le> length ?recs"
    by (simp add: recommend_spec_def)
  show ?thesis
    by (rule exI [of _ ?recs], rule exI [of _ front]) (intro conjI gen refl fr len)
qed

theorem recommendations_rule_order_witness:
  "purpose \<lparr>technology = ''react'', purpose = Str ''building a Web API'',
            constraints = Some [''High Performance'', ''security audit'']\<rparr>
     = Str ''building a Web API''
   \<and> generateRecommendations
        \<lparr>technology = ''react'', purpose = Str ''building a Web API'',
         constraints = Some [''High Performance'', ''security audit'']\<rparr>
        [\<lparr>title = ''vercel/next.js'', url = ''https://github.com/vercel/next.js'',
          type = Repository, relevance = 0.6\<rparr>,
         \<lparr>title = ''facebook/react'', url = ''https://github.com/facebook/react'',
          type = Repository, relevance = 1\<rparr>]
     = Inr [''Consider using facebook/react as it has high community adoption'',
            ''Focus on frameworks with strong web support and active maintenance'',
            ''Prioritize libraries with good REST/GraphQL integration'',
            ''Evaluate performance benchmarks before implementation'',
            ''Review security practices and vulnerability reports'',
            ''Set up automated testing and CI/CD pipeline'',
            ''Plan for regular dependency updates and security patches'']"
  using recommendations_rule_order [where p = "''building a Web API''"
     and q = "\<lparr>technology = ''react'', purpose = Str ''building a Web API'',
            constraints = Some [''High Performance'', ''security audit'']\<rparr>"
     and repos = "[\<lparr>title = ''vercel/next.js'', url = ''https://github.com/vercel/next.js'',
          type = Repository, relevance = 0.6\<rparr>,
         \<lparr>title = ''facebook/react'', url = ''https://github.com/facebook/react'',
          type = Repository, relevance = 1\<rparr>]"]
  by (simp add: recommend_spec_def toLowerCase_def toLowerChar_def)

text \<open>
  The wording of claim C9, with the purpose and the constraints tested as they are
  written, fails on the code: the purpose and the constraint below contain neither web,
  api nor performance in lower case, and the code still gives the three recommendations.
\<close>

theorem recommendations_case_counterexample:
  "generateRecommendations
     \<lparr>technology = ''express'', purpose = Str ''REST API for a Web shop'',
      constraints = Some [''High Performance'']\<rparr> []
     = Inr [''Focus on frameworks with strong web support and active maintenance'',
            ''Prioritize libraries with good REST/GraphQL integration'',
            ''Evaluate performance benchmarks before implementation'',
            ''Set up automated testing and CI/CD pipeline'',
            ''Plan for regular dependency updates and security patches'']
   \<and> recommend_spec ''REST API for a Web shop'' [''High Performance''] []
     = [''Set up automated testing and CI/CD pipeline'',
        ''Plan for regular dependency updates and security patches'']"
  by (simp add: generateRecommendations_def recommend_spec_def constraintRecommendations_def
        toLowerCase_def toLowerChar_def)

subsection \<open>Failure isolation in the adapters\<close>

text \<open>
  Claim C7. \<^verbatim>\<open>searchGitHub\<close> always returns: when the request fails, or anything in its
  \<^verbatim>\<open>try\<close> block throws, it returns the empty list. \<^verbatim>\<open>findCodeExamples\<close> always returns:
  when the code search fails it returns the empty list, and when the search gives items
  it returns the examples of exactly the items whose content could be fetched, in order.
\<close>

theorem adapters_isolate_failures:
  "(\<exists>rs. searchGitHub w tech = Inr rs)
   \<and> (\<forall>e. searchGitHub_try w tech = Inl e \<longrightarrow> searchGitHub w tech = Inr [])
   \<and> (\<forall>e. search_repositories w
             (tech @ '' language:typescript language:javascript stars:>100'') = Inl e
          \<longrightarrow> searchGitHub w tech = Inr [])
   \<and> (\<exists>xs. findCodeExamples w tech = Inr xs)
   \<and> (\<forall>e. search_code w (tech @ '' language:typescript language:javascript'') = Inl e
          \<longrightarrow> findCodeExamples w tech = Inr [])
   \<and> (\<forall>items. search_code w (tech @ '' language:typescript language:javascript'') = Inr (Some items)
          \<longrightarrow> findCodeExamples w tech =
               Inr (concat (map (\<lambda>item. case fetch_content w (item_url item) of
                                           Inl e \<Rightarrow> []
                                         | Inr src \<Rightarrow> [codeExample tech item src]) items)))"
proof -
  have a: "\<forall>e. searchGitHub_try w tech = Inl e \<longrightarrow> searchGitHub w tech = Inr []"
    by (simp add: searchGitHub_def)
  have b: "\<forall>e. search_repositories w
             (tech @ '' language:typescript language:javascript stars:>100'') = Inl e
          \<longrightarrow> searchGitHub w tech = Inr []"
    by (simp add: searchGitHub_def searchGitHub_try_def)
  have c: "\<forall>e. search_code w (tech @ '' language:typescript language:javascript'') = Inl e
          \<longrightarrow> findCodeExamples w tech = Inr []"
    by (simp add: findCodeExamples_def findCodeExamples_try_def)
  have d: "\<forall>items. search_code w (tech @ '' language:typescript language:javascript'') = Inr (Some items)
          \<longrightarrow> findCodeExamples w tech =
               Inr (concat (map (\<lambda>item. case fetch_content w (item_url item) of
                                           Inl e \<Rightarrow> []
                                         | Inr src \<Rightarrow> [codeExample tech item src]) items))"
    by (simp add: findCodeExamples_def findCodeExamples_try_def fetchExamples_concat)
  show ?thesis
    using searchGitHub_total [of w tech] findCodeExamples_total [of w tech] a b c d
    by blast
qed

theorem adapters_isolate_failures_witness:
  "searchGitHub offlineWorld ''react'' = Inr []
   \<and> findCodeExamples offlineWorld ''react'' = Inr []
   \<and> fetch_content exampleWorld (item_url goneItem) = Inl (Error ''Request failed with status code 404'')
   \<and> findCodeExamples exampleWorld ''react'' =
        Inr [codeExample ''react'' exampleItem ''const app = React.create()'']"
proof -
  have a: "search_repositories offlineWorld
      (''react'' @ '' language:typescript language:javascript stars:>100'') = Inl (Error ''Network Error'')"
    by (simp add: offlineWorld_def)
  have b: "search_code offlineWorld
      (''react'' @ '' language:typescript language:javascript'') = Inl (Error ''Network Error'')"
    by (simp add: offlineWorld_def)
  have c: "search_code exampleWorld
      (''react'' @ '' language:typescript language:javascript'') = Inr (Some [goneItem, exampleItem])"
    by (simp add: exampleWorld_def)
  have g: "fetch_content exampleWorld (item_url goneItem) = Inl (Error ''Request failed with status code 404'')"
    by (simp add: exampleWorld_def goneItem_def)
  have e: "fetch_content exampleWorld (item_url exampleItem) = Inr ''const app = React.create()''"
    by (simp add: exampleWorld_def exampleItem_def)
  have "searchGitHub offlineWorld ''react'' = Inr []"
    using adapters_isolate_failures [of offlineWorld "''react''"] a by blast
  moreover have "findCodeExamples offlineWorld ''react'' = Inr []"
    using adapters_isolate_failures [of offlineWorld "''react''"] b by blast
  moreover have "findCodeExamples exampleWorld ''react'' =
      Inr (concat (map (\<lambda>item. case fetch_content exampleWorld (item_url item) of
                                  Inl e \<Rightarrow> []
                                | Inr src \<Rightarrow> [codeExample ''react'' item src])
                   [goneItem, exampleItem]))"
    using adapters_isolate_failures [of exampleWorld "''react''"] c by blast
  ultimately show ?thesis
    using g e by simp
qed

subsection \<open>The orchestrator\<close>

text \<open>
  Claim C1. When \<^verbatim>\<open>researchTopic\<close> returns a result, its resources are the repository
  adapter's results followed by the documentation adapter's results, nothing merged or
  removed, and its code examples are the code-sample adapter's output. In the witness
  both adapters give the same URL and the result holds it twice.
\<close>

theorem researchTopic_assembles:
  assumes "researchTopic w q = Inr r"
  shows "\<exists>g d c. searchGitHub w (technology q) = Inr g
           \<and> searchDocumentation w (technology q) = Inr d
           \<and> findCodeExamples w (technology q) = Inr c
           \<and> resources r = g @ d \<and> codeExamples r = c"
  using assms
  by (auto simp: researchTopic_def researchTopic_try_def Let_def split: sum.splits)

theorem researchTopic_assembles_witness:
  "\<exists>r. researchTopic exampleWorld exampleQuery = Inr r
     \<and> map url (resources r) =
         [''https://github.com/facebook/react'', ''https://github.com/facebook/react'']
     \<and> map type (resources r) = [Repository, Documentation]
     \<and> codeExamples r = [codeExample ''react'' exampleItem ''const app = React.create()'']"
proof -
  have t: "technology exampleQuery = ''react''"
    by (simp add: exampleQuery_def)
  obtain recs where "generateRecommendations exampleQuery
      [\<lparr>title = ''facebook/react'', url = ''https://github.com/facebook/react'',
        type = Repository, relevance = 0.7\<rparr>] = Inr recs"
    using generateRecommendations_Str [of exampleQuery] by (auto simp: exampleQuery_def)
  then obtain r where r: "researchTopic exampleWorld exampleQuery = Inr r"
    by (simp add: researchTopic_def researchTopic_try_def t example_searchGitHub
          example_searchDocumentation example_findCodeExamples)
  show ?thesis
    using researchTopic_assembles [OF r] r
    by (auto simp: t example_searchGitHub example_searchDocumentation
          example_findCodeExamples)
qed




end
